theory Spec2Isabelle
  imports Main
begin

section \<open>JavaScript values\<close>

text \<open>
  The fields the updater copies around (identity fields, collection id, event ids, the
  error handed to a callback, the timeout flag) are untyped JavaScript values. Only
  their truthiness and their identity matter to the code. \<open>Obj r\<close> is a reference to
  an object, such as an \<open>Error\<close>.
\<close>

datatype jsval = Undefined | Null | JBool bool | Num int | Str string | Obj nat

fun truthy :: "jsval \<Rightarrow> bool" where
  "truthy Undefined = False"
| "truthy Null = False"
| "truthy (JBool b) = b"
| "truthy (Num n) = (n \<noteq> 0)"
| "truthy (Str s) = (s \<noteq> [])"
| "truthy (Obj r) = True"

datatype js_error = TypeError

section \<open>CollectionUpdater (src/unnamed/part_000)\<close>

text \<open>The options object of the constructor (only the fields the constructor reads
  into the instance; the two clients are external collaborators).\<close>

record updater_opts =
  opt_network :: jsval
  opt_siteId :: jsval
  opt_articleId :: jsval
  opt_environment :: jsval

text \<open>The instance. Field \<open>priv_x\<close> is the source's \<open>this._x\<close>.\<close>

record updater =
  priv_network :: jsval
  priv_siteId :: jsval
  priv_articleId :: jsval
  priv_environment :: jsval
  priv_isInitingFromBootstrap :: bool
  priv_finishedInitFromBootstrap :: bool
  priv_latestEvent :: jsval
  priv_collectionId :: jsval

text \<open>The object \<open>_getCollectionOptions\<close> returns, and the same object after
  \<open>_stream\<close> has added \<open>commentId\<close> to it.\<close>

record collection_options =
  environment :: jsval
  network :: jsval
  siteId :: jsval
  articleId :: jsval
  collectionId :: jsval

record stream_options = collection_options +
  commentId :: jsval

text \<open>Responses of the two clients. A response that is \<open>undefined\<close> is \<open>None\<close>:
  reading a property of it throws a TypeError.\<close>

record collection_settings =
  event :: jsval
  cs_collectionId :: jsval

record init_response =
  collectionSettings :: "collection_settings option"

text \<open>\<open>states\<close> is the list of the own properties of \<open>data.states\<close>, in the
  order \<open>for ... in\<close> enumerates them (an absent \<open>states\<close> is the empty list).\<close>

record 'st stream_data =
  timeout :: jsval
  states :: "(string \<times> 'st) list"
  maxEventId :: jsval

text \<open>
  \<open>StateToContent\<close> is not part of the sources at hand, so it is a parameter: how an
  instance is constructed from the response, and what \<open>write\<close> does to the instance,
  with the contents it emits as \<open>data\<close> events during the call
  (\<open>stc_new\<close> is \<open>new StateToContent(streamData)\<close>, \<open>stc_write\<close> is \<open>write\<close>).
\<close>

record ('st, 'c, 'ts) state_to_content =
  stc_new :: "'st stream_data \<Rightarrow> 'ts"
  stc_write :: "'ts \<Rightarrow> 'st \<Rightarrow> 'c list \<times> 'ts"

text \<open>What a call does to the outside world, in order. A request carries the options
  it was made with; its callback runs later (\<open>bootstrap_callback\<close>,
  \<open>stream_callback\<close>). \<open>NextTick\<close> hands a function to
  \<open>streamUtil.nextTick\<close>; \<open>run_deferred\<close> is that function's body.
  Debug logging is left out.\<close>

datatype deferred = CallStream

datatype 'c action =
    BootstrapRequest collection_options
  | StreamRequest stream_options
  | EmitError jsval
  | Push "'c list"
  | NextTick deferred

text \<open>A call returns the instance as it left it, what it did, and the exception it
  threw, if any.\<close>

type_synonym 'c outcome = "updater \<times> 'c action list \<times> js_error option"

definition CollectionUpdater :: "updater_opts \<Rightarrow> updater" where
  "CollectionUpdater opts =
     \<lparr> priv_network = opt_network opts,
       priv_siteId = opt_siteId opts,
       priv_articleId = opt_articleId opts,
       priv_environment = opt_environment opts,
       priv_isInitingFromBootstrap = False,
       priv_finishedInitFromBootstrap = False,
       priv_latestEvent = Undefined,
       priv_collectionId = Undefined \<rparr>"

definition getCollectionOptions :: "updater \<Rightarrow> collection_options" where
  "getCollectionOptions u =
     \<lparr> environment = priv_environment u,
       network = priv_network u,
       siteId = priv_siteId u,
       articleId = priv_articleId u,
       collectionId = priv_collectionId u \<rparr>"

definition stream :: "updater \<Rightarrow> 'c outcome" where
  "stream u =
     (let latestEvent = priv_latestEvent u;
          streamClientOpts = collection_options.extend (getCollectionOptions u)
                               (stream_options.fields latestEvent)
      in (u, [StreamRequest streamClientOpts], None))"

text \<open>
  The \<open>for ... in\<close> loop of \<open>_contentsFromStreamData\<close>, over the properties still
  to be visited. Each iteration calls \<open>states.hasOwnProperty(contentId)\<close> on the
  response's own \<open>states\<close> object: when that object has an own property named
  \<open>hasOwnProperty\<close>, the call finds the raw state stored under that key (data, not a
  function) and throws a TypeError. Otherwise the call answers true for every key of
  the list, and the state is written.
\<close>

fun writeStates :: "('st, 'c, 'ts) state_to_content \<Rightarrow> (string \<times> 'st) list \<Rightarrow> 'ts
    \<Rightarrow> (string \<times> 'st) list \<Rightarrow> 'c list \<Rightarrow> js_error + 'c list" where
  "writeStates stc sts t [] contents = Inr contents"
| "writeStates stc sts t ((contentId, state) # rest) contents =
     (if map_of sts ''hasOwnProperty'' \<noteq> None then Inl TypeError
      else let (emitted, t') = stc_write stc t state
           in writeStates stc sts t' rest (contents @ emitted))"

definition contentsFromStreamData :: "('st, 'c, 'ts) state_to_content \<Rightarrow> 'st stream_data
    \<Rightarrow> js_error + 'c list" where
  "contentsFromStreamData stc streamData =
     writeStates stc (states streamData) (stc_new stc streamData) (states streamData) []"

text \<open>The callback \<open>_stream\<close> passes to \<open>streamClient.getContent\<close>.\<close>

definition stream_callback :: "('st, 'c, 'ts) state_to_content \<Rightarrow> updater \<Rightarrow> jsval
    \<Rightarrow> 'st stream_data option \<Rightarrow> 'c outcome" where
  "stream_callback stc u err data =
     (if truthy err then (u, [EmitError err], None)
      else case data of
        None \<Rightarrow> (u, [], Some TypeError)
      | Some d \<Rightarrow>
          if truthy (timeout d) then (u, [NextTick CallStream], None)
          else
            case contentsFromStreamData stc d of
              Inl e \<Rightarrow> (u, [], Some e)
            | Inr contents \<Rightarrow>
                let u' = u\<lparr>priv_latestEvent := maxEventId d\<rparr>
                in if contents \<noteq> [] then (u', [Push contents], None)
                   else stream u')"

definition run_deferred :: "deferred \<Rightarrow> updater \<Rightarrow> 'c outcome" where
  "run_deferred f u = (case f of CallStream \<Rightarrow> stream u)"

text \<open>The function \<open>_read\<close> passes to \<open>_getBootstrapInit\<close> as \<open>errback\<close>.\<close>

definition read_errback :: "updater \<Rightarrow> jsval \<Rightarrow> init_response option \<Rightarrow> 'c outcome" where
  "read_errback u err initResponse =
     (case initResponse of
        None \<Rightarrow> (u, [], Some TypeError)
      | Some r \<Rightarrow>
          (case collectionSettings r of
             None \<Rightarrow> (u, [], Some TypeError)
           | Some cs \<Rightarrow>
               stream (u\<lparr>priv_latestEvent := event cs, priv_collectionId := cs_collectionId cs\<rparr>)))"

text \<open>The callback \<open>_getBootstrapInit\<close> passes to \<open>bootstrapClient.getContent\<close>.\<close>

definition bootstrap_callback :: "(updater \<Rightarrow> jsval \<Rightarrow> init_response option \<Rightarrow> 'c outcome)
    \<Rightarrow> updater \<Rightarrow> jsval \<Rightarrow> init_response option \<Rightarrow> 'c outcome" where
  "bootstrap_callback errback u err data =
     (let emitted = (if truthy err then [EmitError err] else []);
          u' = u\<lparr>priv_isInitingFromBootstrap := False, priv_finishedInitFromBootstrap := True\<rparr>;
          (u'', acts, thrown) = errback u' err data
      in (u'', emitted @ acts, thrown))"

definition getBootstrapInit :: "updater \<Rightarrow> 'c outcome" where
  "getBootstrapInit u =
     (if priv_isInitingFromBootstrap u then (u, [], None)
      else
        let u' = u\<lparr>priv_isInitingFromBootstrap := True\<rparr>
        in (u', [BootstrapRequest (getCollectionOptions u')], None))"

definition read :: "updater \<Rightarrow> 'c outcome" where
  "read u =
     (if \<not> priv_finishedInitFromBootstrap u then getBootstrapInit u
      else stream u)"

text \<open>
  The updater between two stream requests. The response to the outstanding request
  arrives with no error; when the callback has not made the next request itself (it
  pushed contents, or it threw), the next request is the one \<open>_read\<close> makes when
  the \<open>Readable\<close> base class calls it for more. \<open>poll\<close> lists, for each
  response in turn, the stream requests made between it and the next response.
\<close>

fun stream_requests :: "'c action list \<Rightarrow> stream_options list" where
  "stream_requests [] = []"
| "stream_requests (StreamRequest opts # acts) = opts # stream_requests acts"
| "stream_requests (a # acts) = stream_requests acts"

fun bootstrap_requests :: "'c action list \<Rightarrow> collection_options list" where
  "bootstrap_requests [] = []"
| "bootstrap_requests (BootstrapRequest opts # acts) = opts # bootstrap_requests acts"
| "bootstrap_requests (a # acts) = bootstrap_requests acts"

definition next_request :: "('st, 'c, 'ts) state_to_content \<Rightarrow> updater \<Rightarrow> 'st stream_data
    \<Rightarrow> updater \<times> stream_options list" where
  "next_request stc u d =
     (let (u1, a1, t1) = stream_callback stc u Null (Some d)
      in if stream_requests a1 \<noteq> [] then (u1, stream_requests a1)
         else let (u2, a2, t2) = (read u1 :: 'c outcome)
              in (u2, stream_requests a2))"

fun poll :: "('st, 'c, 'ts) state_to_content \<Rightarrow> updater \<Rightarrow> 'st stream_data list
    \<Rightarrow> stream_options list list" where
  "poll stc u [] = []"
| "poll stc u (d # ds) =
     (let (u', reqs) = next_request stc u d in reqs # poll stc u' ds)"

section \<open>ContentListView (src/src/content/views/content-list-view.js)\<close>

text \<open>A content object: its identity as an object (\<open>===\<close> on two content records is
  equality of the records) and its \<open>id\<close>. A content view holds its content.
  \<open>add\<close> and \<open>remove\<close> take either, and tell them apart by \<open>content.el\<close>.\<close>

record content =
  content_ref :: nat
  content_id :: jsval

record contentView =
  view_ref :: nat
  content :: content

datatype item = View contentView | Content content

text \<open>Modelled from the spec: the classes behind \<open>this.more\<close>, \<open>this._stash\<close> and
  \<open>this.feature\<close> (\<open>More\<close>, \<open>Pond\<close>) are not among the sources at hand. The spec
  gives the stash an ordered collection of displaced entities, a release-goal counter
  and a release cadence counter; the cadence counter and its interval are the fields
  \<open>_count\<close> and \<open>_interval\<close> that \<open>add\<close> reads and writes.\<close>

record stash =
  entities :: "content list"
  goal :: int
  priv_count :: int
  priv_interval :: int

text \<open>Modelled from the spec: \<open>stack(entity)\<close> pushes an entity onto the stash; the
  stash is last-in-first-out, so the head of the list is the most recent entity.\<close>

definition stack :: "content \<Rightarrow> stash \<Rightarrow> stash" where
  "stack e s = s\<lparr>entities := e # entities s\<rparr>"

text \<open>Modelled from the spec: \<open>setGoal(n)\<close> sets the number of entities eligible for
  release.\<close>

definition setGoal :: "int \<Rightarrow> stash \<Rightarrow> stash" where
  "setGoal n s = s\<lparr>goal := n\<rparr>"

text \<open>Modelled from the spec: a release hands out one stashed entity, the most recently
  stacked one, and consumes one unit of goal; with no goal left nothing is released; if
  the stash is empty, release is a no-op and does not consume goal.\<close>

definition release :: "stash \<Rightarrow> content option \<times> stash" where
  "release s =
     (if goal s \<le> 0 then (None, s)
      else case entities s of
        [] \<Rightarrow> (None, s)
      | e # es \<Rightarrow> (Some e, s\<lparr>entities := es, goal := goal s - 1\<rparr>))"

text \<open>A number of release events in a row, with the entities they hand out, in
  order.\<close>

fun releases :: "nat \<Rightarrow> stash \<Rightarrow> content list \<times> stash" where
  "releases 0 s = ([], s)"
| "releases (Suc k) s =
     (let (r, s') = release s; (rs, s'') = releases k s'
      in ((case r of None \<Rightarrow> [] | Some e \<Rightarrow> [e]) @ rs, s''))"

text \<open>
  \<open>ListView\<close> (the base class) and the content view factory are not among the sources
  at hand either, and the spec says nothing about them, so they are parameters:
  what \<open>ListView.prototype.add\<close> and \<open>ListView.prototype.remove\<close> make of
  \<open>this.views\<close>, and the view the factory creates for a content.
\<close>

record collaborators =
  ListView_add :: "contentView list \<Rightarrow> contentView \<Rightarrow> jsval \<Rightarrow> contentView list"
  ListView_remove :: "contentView list \<Rightarrow> contentView \<Rightarrow> contentView list"
  factory_createContentView :: "content \<Rightarrow> contentView"

text \<open>
  The instance. \<open>lv_more\<close> (the source's \<open>this.more\<close>), \<open>priv_stash\<close> and
  \<open>feature\<close> are references into \<open>objects\<close>: the constructor sets
  \<open>this._stash = opts.stash || this.more\<close>, so two of them may be one object.
\<close>

record contentListView =
  views :: "contentView list"
  lv_more :: nat
  priv_stash :: nat
  feature :: nat
  priv_maxVisibleItems :: int
  priv_bound :: bool
  objects :: "nat \<Rightarrow> stash"

type_synonym listview_outcome = "contentListView \<times> js_error option"

definition bounded :: "bool \<Rightarrow> contentListView \<Rightarrow> contentListView" where
  "bounded bound lv = lv\<lparr>priv_bound := bound\<rparr>"

definition hasVisibleVacancy :: "contentListView \<Rightarrow> bool" where
  "hasVisibleVacancy lv =
     (if int (length (views lv)) > priv_maxVisibleItems lv then False else True)"

definition getContentView :: "contentListView \<Rightarrow> content \<Rightarrow> contentView option" where
  "getContentView lv newContent =
     find (\<lambda>contentView. newContent = content contentView \<or>
              (truthy (content_id newContent) \<and>
               content_id (content contentView) = content_id newContent))
       (views lv)"

definition createContentView :: "collaborators \<Rightarrow> content \<Rightarrow> contentView" where
  "createContentView cl c = factory_createContentView cl c"

definition saveForLater :: "content \<Rightarrow> contentListView \<Rightarrow> contentListView" where
  "saveForLater c lv =
     lv\<lparr>objects := (objects lv)(priv_stash lv := stack c (objects lv (priv_stash lv)))\<rparr>"

text \<open>\<open>remove\<close> calls \<open>contentView.remove()\<close> (src/src/content/views/content-view.js),
  which triggers \<open>removeContentView.hub\<close>; the handler \<open>setElement\<close> has installed
  answers with \<open>ListView.prototype.remove\<close>. Calling it on \<open>null\<close> throws.\<close>

definition remove :: "collaborators \<Rightarrow> item \<Rightarrow> contentListView \<Rightarrow> listview_outcome" where
  "remove cl c lv =
     (case (case c of View v \<Rightarrow> Some v | Content c' \<Rightarrow> getContentView lv c') of
        None \<Rightarrow> (lv, Some TypeError)
      | Some contentView \<Rightarrow>
          (lv\<lparr>views := ListView_remove cl (views lv) contentView\<rparr>, None))"

text \<open>The body of the \<open>if (this._bound && ! this._hasVisibleVacancy())\<close> of \<open>add\<close>.
  \<open>this.views[this.views.length-1]\<close> of an empty array is \<open>undefined\<close>, and reading
  its \<open>content\<close> throws, after \<open>setGoal(0)\<close> has run.\<close>

definition displace :: "collaborators \<Rightarrow> contentListView \<Rightarrow> listview_outcome" where
  "displace cl lv =
     (let lv1 = lv\<lparr>objects := (objects lv)(lv_more lv := setGoal 0 (objects lv (lv_more lv)))\<rparr>
      in case views lv of
           [] \<Rightarrow> (lv1, Some TypeError)
         | v # vs \<Rightarrow>
             let viewToRemove = last (views lv);
                 lv2 = saveForLater (content viewToRemove) lv1
             in remove cl (View viewToRemove) lv2)"

text \<open>The last statements of \<open>add\<close>, on \<open>this.feature\<close>: count the insertion, and at
  the interval reset the counter and set the goal.\<close>

definition cadence :: "stash \<Rightarrow> stash" where
  "cadence f =
     (let f1 = f\<lparr>priv_count := priv_count f + 1\<rparr>
      in if priv_count f1 = priv_interval f1
         then setGoal 1 (f1\<lparr>priv_count := - 1\<rparr>)
         else f1)"

fun add :: "collaborators \<Rightarrow> item \<Rightarrow> jsval \<Rightarrow> contentListView \<Rightarrow> listview_outcome" where
  "add cl (View contentView) index lv =
     (lv\<lparr>views := ListView_add cl (views lv) contentView index\<rparr>, None)"
| "add cl (Content c) index lv =
     (case getContentView lv c of
        Some contentView \<Rightarrow>
          (lv\<lparr>views := ListView_add cl (views lv) contentView index\<rparr>, None)
      | None \<Rightarrow>
          let contentView = createContentView cl c;
              (lv1, thrown) = (if priv_bound lv \<and> \<not> hasVisibleVacancy lv
                               then displace cl lv else (lv, None))
          in case thrown of
               Some e \<Rightarrow> (lv1, Some e)
             | None \<Rightarrow>
                 let lv2 = lv1\<lparr>views := ListView_add cl (views lv1) contentView index\<rparr>
                 in (lv2\<lparr>objects := (objects lv2)
                           (feature lv2 := cadence (objects lv2 (feature lv2)))\<rparr>, None))"

text \<open>\<open>this.feature._count\<close>.\<close>

definition feature_count :: "contentListView \<Rightarrow> int" where
  "feature_count lv = priv_count (objects lv (feature lv))"

text \<open>Modelled from the spec: \<open>this.feature.read()\<close>, whose class is not among the
  sources at hand, hands out what a release of that stream hands out, and \<open>null\<close>
  when nothing is released.\<close>

definition feature_read :: "contentListView \<Rightarrow> content option \<times> contentListView" where
  "feature_read lv =
     (let (r, f) = release (objects lv (feature lv))
      in (r, lv\<lparr>objects := (objects lv)(feature lv := f)\<rparr>))"

text \<open>
  The function \<open>_pipeFeature\<close> installs on \<open>this.feature\<close> for \<open>readable\<close>:
  \<open>while (content = self.feature.read()) { self.add(content, 0); }\<close>. The loop may
  go on for ever (an \<open>add\<close> can set the goal again), so the first argument bounds
  the number of reads, and \<open>None\<close> is a loop that has not ended within the bound.
\<close>

fun pipeFeature_readable :: "nat \<Rightarrow> collaborators \<Rightarrow> contentListView
    \<Rightarrow> listview_outcome option" where
  "pipeFeature_readable 0 cl lv = None"
| "pipeFeature_readable (Suc n) cl lv =
     (case feature_read lv of
        (None, lv1) \<Rightarrow> Some (lv1, None)
      | (Some c, lv1) \<Rightarrow>
          (case add cl (Content c) (Num 0) lv1 of
             (lv2, Some e) \<Rightarrow> Some (lv2, Some e)
           | (lv2, None) \<Rightarrow> pipeFeature_readable n cl lv2))"

text \<open>A run of \<open>add\<close> calls, one after the other, each with its argument and its
  index.\<close>

fun add_all :: "collaborators \<Rightarrow> (item \<times> jsval) list \<Rightarrow> contentListView
    \<Rightarrow> contentListView" where
  "add_all cl [] lv = lv"
| "add_all cl ((x, index) # run) lv = add_all cl run (fst (add cl x index lv))"

text \<open>Every call of the run creates a view: it is given a content that has no view at
  that moment, and it throws nothing.\<close>

fun creates_views :: "collaborators \<Rightarrow> (item \<times> jsval) list \<Rightarrow> contentListView \<Rightarrow> bool" where
  "creates_views cl [] lv = True"
| "creates_views cl ((View v, index) # run) lv = False"
| "creates_views cl ((Content c, index) # run) lv =
     (getContentView lv c = None \<and> snd (add cl (Content c) index lv) = None \<and>
      creates_views cl run (fst (add cl (Content c) index lv)))"

section \<open>Properties of the CollectionUpdater\<close>

lemma writeStates_returns:
  "map_of sts ''hasOwnProperty'' = None \<Longrightarrow> \<exists>cs. writeStates stc sts t xs acc = Inr cs"
  by (induction xs arbitrary: t acc) (auto simp add: case_prod_unfold Let_def)

lemma contentsFromStreamData_returns:
  "map_of (states d) ''hasOwnProperty'' = None \<Longrightarrow>
   \<exists>cs. contentsFromStreamData stc d = Inr cs"
  unfolding contentsFromStreamData_def by (rule writeStates_returns)

text \<open>
  Where no state is keyed \<open>hasOwnProperty\<close>: after a successful response that is no
  timeout the cursor is set to the response's \<open>maxEventId\<close>, whatever it was, and then
  either the whole batch goes into the buffer in one \<open>push\<close> call, or (the batch is
  empty) one stream request is made at once, from within the callback.
\<close>

lemma data_response_pushes_batch_or_streams_again:
  assumes "\<not> truthy err" and "\<not> truthy (timeout d)"
    and "map_of (states d) ''hasOwnProperty'' = None"
  shows "\<exists>contents. contentsFromStreamData stc d = Inr contents \<and>
     stream_callback stc u err (Some d) =
     (if contents \<noteq> []
      then (u\<lparr>priv_latestEvent := maxEventId d\<rparr>, [Push contents], None)
      else (u\<lparr>priv_latestEvent := maxEventId d\<rparr>,
            [StreamRequest (collection_options.extend
               (getCollectionOptions (u\<lparr>priv_latestEvent := maxEventId d\<rparr>))
               (stream_options.fields (maxEventId d)))], None))"
proof -
  from contentsFromStreamData_returns [OF assms(3)]
  obtain cs where cs: "contentsFromStreamData stc d = Inr cs" by blast
  with assms(1,2) show ?thesis by (simp add: stream_callback_def stream_def Let_def)
qed

lemma next_request_cursor:
  assumes "priv_finishedInitFromBootstrap u" and "\<not> truthy (timeout d)"
    and "map_of (states d) ''hasOwnProperty'' = None"
  shows "map commentId (snd (next_request stc u d)) = [maxEventId d] \<and>
         priv_finishedInitFromBootstrap (fst (next_request stc u d))"
proof -
  from contentsFromStreamData_returns [OF assms(3)]
  obtain cs where cs: "contentsFromStreamData stc d = Inr cs" by blast
  with assms(1,2) show ?thesis
    by (simp add: next_request_def stream_callback_def stream_def read_def Let_def
        stream_options.defs collection_options.defs)
qed

text \<open>
  Where no state is keyed \<open>hasOwnProperty\<close>: for every sequence of successful,
  non-timeout stream responses, exactly one stream request follows each response, and
  its \<open>commentId\<close> is the \<open>maxEventId\<close> of that response. Nothing relates the
  reported ids to one another.
\<close>

lemma poll_cursor_is_last_maxEventId:
  "priv_finishedInitFromBootstrap u \<Longrightarrow>
   \<forall>d \<in> set ds. \<not> truthy (timeout d) \<and> map_of (states d) ''hasOwnProperty'' = None \<Longrightarrow>
   map (map commentId) (poll stc u ds) = map (\<lambda>d. [maxEventId d]) ds"
proof (induction ds arbitrary: u)
  case Nil
  then show ?case by simp
next
  case (Cons d ds)
  from Cons.prems have nt: "\<not> truthy (timeout d)"
    and own: "map_of (states d) ''hasOwnProperty'' = None" by simp_all
  from next_request_cursor [OF Cons.prems(1) nt own, of stc]
  have h: "map commentId (snd (next_request stc u d)) = [maxEventId d]"
    and f: "priv_finishedInitFromBootstrap (fst (next_request stc u d))" by simp_all
  from Cons.IH [OF f] Cons.prems(2)
  have "map (map commentId) (poll stc (fst (next_request stc u d)) ds) =
        map (\<lambda>d. [maxEventId d]) ds"
    by simp
  with h show ?case by (simp add: case_prod_unfold Let_def)
qed

text \<open>
  C1 (the code at the failing input). A successful response, no timeout, whose
  \<open>states\<close> has an own property named \<open>hasOwnProperty\<close> and whose \<open>maxEventId\<close>
  is \<open>E1\<close>, reaches an instance whose cursor is \<open>E0\<close>. The callback throws a
  TypeError in the loop of \<open>_contentsFromStreamData\<close>, before the cursor is assigned:
  the instance is as it was, and the stream request that follows, made by the next
  \<open>_read\<close>, has \<open>commentId: E0\<close>, not \<open>E1\<close>.
\<close>

theorem shadowed_hasOwnProperty_keeps_old_cursor:
  "stream_callback
      \<lparr> stc_new = (\<lambda>d. ()), stc_write = (\<lambda>t s. (if s = (0::nat) then [] else [s], t)) \<rparr>
      \<lparr> priv_network = Str ''n1'', priv_siteId = Str ''s1'', priv_articleId = Str ''a1'',
        priv_environment = Undefined, priv_isInitingFromBootstrap = False,
        priv_finishedInitFromBootstrap = True, priv_latestEvent = Str ''E0'',
        priv_collectionId = Str ''C1'' \<rparr>
      Null (Some \<lparr> timeout = Undefined, states = [(''hasOwnProperty'', 4)],
                maxEventId = Str ''E1'' \<rparr>)
    = (\<lparr> priv_network = Str ''n1'', priv_siteId = Str ''s1'', priv_articleId = Str ''a1'',
        priv_environment = Undefined, priv_isInitingFromBootstrap = False,
        priv_finishedInitFromBootstrap = True, priv_latestEvent = Str ''E0'',
        priv_collectionId = Str ''C1'' \<rparr>,
       [], Some TypeError)
   \<and> map (map commentId) (poll
      \<lparr> stc_new = (\<lambda>d. ()), stc_write = (\<lambda>t s. (if s = (0::nat) then [] else [s], t)) \<rparr>
      \<lparr> priv_network = Str ''n1'', priv_siteId = Str ''s1'', priv_articleId = Str ''a1'',
        priv_environment = Undefined, priv_isInitingFromBootstrap = False,
        priv_finishedInitFromBootstrap = True, priv_latestEvent = Str ''E0'',
        priv_collectionId = Str ''C1'' \<rparr>
      [\<lparr> timeout = Undefined, states = [(''hasOwnProperty'', 4)],
                maxEventId = Str ''E1'' \<rparr>])
    = [[Str ''E0'']]"
  by (simp add: stream_callback_def contentsFromStreamData_def next_request_def read_def
      stream_def getCollectionOptions_def stream_options.defs collection_options.defs)

text \<open>
  C2. On a fresh instance \<open>_read\<close> requests bootstrap init with the identity fields;
  when the response \<open>{collectionSettings: {event: ev, collectionId: cid}}\<close> arrives
  with no error, the first stream request is made with the identity fields,
  \<open>collectionId: cid\<close> and \<open>commentId: ev\<close>.
\<close>

theorem first_stream_request_after_bootstrap:
  assumes "\<not> truthy err"
  shows "let (u1, a1, t1) = (read (CollectionUpdater opts) :: 'c outcome);
             (u2, a2, t2) = (bootstrap_callback read_errback u1 err
                (Some \<lparr> collectionSettings = Some \<lparr> event = ev, cs_collectionId = cid \<rparr> \<rparr>)
                  :: 'c outcome)
         in a1 = [BootstrapRequest \<lparr> environment = opt_environment opts,
                    network = opt_network opts, siteId = opt_siteId opts,
                    articleId = opt_articleId opts, collectionId = Undefined \<rparr>]
          \<and> a2 = [StreamRequest \<lparr> environment = opt_environment opts,
                    network = opt_network opts, siteId = opt_siteId opts,
                    articleId = opt_articleId opts, collectionId = cid, commentId = ev \<rparr>]
          \<and> t2 = None"
  using assms
  by (simp add: read_def getBootstrapInit_def CollectionUpdater_def bootstrap_callback_def
      read_errback_def stream_def getCollectionOptions_def Let_def
      stream_options.defs collection_options.defs)

theorem first_stream_request_after_bootstrap_witness:
  "\<not> truthy Null \<and>
   (let (u1, a1, t1) = (read (CollectionUpdater \<lparr> opt_network = Str ''n1'',
              opt_siteId = Str ''s1'', opt_articleId = Str ''a1'',
              opt_environment = Undefined \<rparr>) :: nat outcome);
        (u2, a2, t2) = (bootstrap_callback read_errback u1 Null
           (Some \<lparr> collectionSettings = Some \<lparr> event = Str ''E0'',
                                                cs_collectionId = Str ''C1'' \<rparr> \<rparr>)
              :: nat outcome)
    in a2 = [StreamRequest \<lparr> environment = Undefined, network = Str ''n1'',
               siteId = Str ''s1'', articleId = Str ''a1'', collectionId = Str ''C1'',
               commentId = Str ''E0'' \<rparr>])"
proof -
  have h: "\<not> truthy Null" by simp
  from first_stream_request_after_bootstrap [OF h,
      of "\<lparr> opt_network = Str ''n1'', opt_siteId = Str ''s1'', opt_articleId = Str ''a1'',
           opt_environment = Undefined \<rparr>" "Str ''E0''" "Str ''C1''", where ?'c = nat]
  show ?thesis by (simp add: case_prod_unfold Let_def)
qed

text \<open>
  C3. A stream response whose \<open>timeout\<close> is truthy pushes nothing and leaves the
  instance, hence the cursor, as it was. The callback makes no request itself: it hands
  one function to \<open>nextTick\<close>, and that function, once run, makes exactly one stream
  request, with the unchanged cursor.
\<close>

theorem timeout_defers_one_stream_request:
  assumes "\<not> truthy err" and "truthy (timeout d)"
  shows "stream_callback stc u err (Some d) = (u, [NextTick CallStream], None)
       \<and> (run_deferred CallStream u :: 'x outcome) =
           (u, [StreamRequest (collection_options.extend (getCollectionOptions u)
                  (stream_options.fields (priv_latestEvent u)))], None)"
  using assms by (simp add: stream_callback_def run_deferred_def stream_def)

theorem timeout_defers_one_stream_request_witness:
  "\<not> truthy Null \<and> truthy (timeout \<lparr> timeout = JBool True, states = [], maxEventId = Undefined \<rparr>)
   \<and> stream_callback
        \<lparr> stc_new = (\<lambda>d. ()), stc_write = (\<lambda>t s. (if s = (0::nat) then [] else [s], t)) \<rparr>
        \<lparr> priv_network = Str ''n1'', priv_siteId = Str ''s1'', priv_articleId = Str ''a1'',
          priv_environment = Undefined, priv_isInitingFromBootstrap = False,
          priv_finishedInitFromBootstrap = True, priv_latestEvent = Str ''E0'',
          priv_collectionId = Str ''C1'' \<rparr>
        Null (Some \<lparr> timeout = JBool True, states = [], maxEventId = Undefined \<rparr>)
      = (\<lparr> priv_network = Str ''n1'', priv_siteId = Str ''s1'', priv_articleId = Str ''a1'',
          priv_environment = Undefined, priv_isInitingFromBootstrap = False,
          priv_finishedInitFromBootstrap = True, priv_latestEvent = Str ''E0'',
          priv_collectionId = Str ''C1'' \<rparr>, [NextTick CallStream], None)"
proof -
  let ?u = "\<lparr> priv_network = Str ''n1'', priv_siteId = Str ''s1'', priv_articleId = Str ''a1'',
          priv_environment = Undefined, priv_isInitingFromBootstrap = False,
          priv_finishedInitFromBootstrap = True, priv_latestEvent = Str ''E0'',
          priv_collectionId = Str ''C1'' \<rparr>"
  let ?stc = "\<lparr> stc_new = (\<lambda>d. ()), stc_write = (\<lambda>t s. (if s = (0::nat) then [] else [s], t)) \<rparr>"
  have h: "\<not> truthy Null" by simp
  have t: "truthy (timeout (\<lparr> timeout = JBool True, states = [], maxEventId = Undefined \<rparr>
      :: nat stream_data))"
    by simp
  from timeout_defers_one_stream_request [OF h t, where u = ?u and stc = ?stc and ?'x = nat]
  show ?thesis by simp
qed

text \<open>
  C4. While the bootstrap request is outstanding (\<open>_isInitingFromBootstrap\<close> is set
  and init has not finished), \<open>_read\<close> does nothing: no request, no other action, and
  the instance is left as it was. In particular the second \<open>_read\<close> on a fresh
  instance makes no second bootstrap request.
\<close>

theorem read_while_bootstrapping_is_noop:
  assumes "priv_isInitingFromBootstrap u" and "\<not> priv_finishedInitFromBootstrap u"
  shows "read u = (u, [], None)"
  using assms by (simp add: read_def getBootstrapInit_def)

theorem read_while_bootstrapping_is_noop_witness:
  "(let (u1, a1, t1) = (read (CollectionUpdater \<lparr> opt_network = Str ''n1'',
              opt_siteId = Str ''s1'', opt_articleId = Str ''a1'',
              opt_environment = Undefined \<rparr>) :: nat outcome)
    in priv_isInitingFromBootstrap u1 \<and> \<not> priv_finishedInitFromBootstrap u1
     \<and> length (bootstrap_requests a1) = 1
     \<and> (read u1 :: nat outcome) = (u1, [], None))"
proof -
  let ?u1 = "fst (read (CollectionUpdater \<lparr> opt_network = Str ''n1'',
              opt_siteId = Str ''s1'', opt_articleId = Str ''a1'',
              opt_environment = Undefined \<rparr>) :: nat outcome)"
  have i: "priv_isInitingFromBootstrap ?u1"
    by (simp add: read_def getBootstrapInit_def CollectionUpdater_def Let_def)
  have f: "\<not> priv_finishedInitFromBootstrap ?u1"
    by (simp add: read_def getBootstrapInit_def CollectionUpdater_def Let_def)
  from read_while_bootstrapping_is_noop [OF i f, where ?'a = nat] i f
  show ?thesis
    by (simp add: case_prod_unfold read_def getBootstrapInit_def CollectionUpdater_def Let_def)
qed

text \<open>
  C5 (the code at the failing inputs). The bootstrap callback emits the error and then
  goes on as after a success: it marks init as finished and calls \<open>errback\<close>, which
  never looks at \<open>err\<close>. With no response object \<open>errback\<close> throws a TypeError and
  the instance is left marked as initialised with neither cursor nor collection id, so
  the next \<open>_read\<close> makes a stream request with both \<open>undefined\<close>. With a response
  object that has \<open>collectionSettings\<close> the stream request is made at once.
\<close>

theorem bootstrap_error_falls_through:
  "(let (u1, a1, t1) = (read (CollectionUpdater opts) :: 'c outcome);
        (u2, a2, t2) = (bootstrap_callback read_errback u1 (Str ''boom'') None :: 'c outcome);
        (u3, a3, t3) = (read u2 :: 'c outcome)
    in a2 = [EmitError (Str ''boom'')] \<and> t2 = Some TypeError
     \<and> priv_finishedInitFromBootstrap u2
     \<and> priv_latestEvent u2 = Undefined \<and> priv_collectionId u2 = Undefined
     \<and> a3 = [StreamRequest \<lparr> environment = opt_environment opts,
                network = opt_network opts, siteId = opt_siteId opts,
                articleId = opt_articleId opts, collectionId = Undefined,
                commentId = Undefined \<rparr>])
   \<and> (let (u1, a1, t1) = (read (CollectionUpdater opts) :: 'c outcome);
           (u2, a2, t2) = (bootstrap_callback read_errback u1 (Str ''boom'')
              (Some \<lparr> collectionSettings = Some \<lparr> event = Str ''E0'',
                                                   cs_collectionId = Str ''C1'' \<rparr> \<rparr>)
                :: 'c outcome)
       in a2 = [EmitError (Str ''boom''),
                StreamRequest \<lparr> environment = opt_environment opts,
                  network = opt_network opts, siteId = opt_siteId opts,
                  articleId = opt_articleId opts, collectionId = Str ''C1'',
                  commentId = Str ''E0'' \<rparr>])"
  by (simp add: read_def getBootstrapInit_def CollectionUpdater_def bootstrap_callback_def
      read_errback_def stream_def getCollectionOptions_def Let_def
      stream_options.defs collection_options.defs)

text \<open>
  C6 as stated fails: the callback of a failed stream request returns the instance
  exactly as it was, and \<open>_read\<close> on that instance makes a stream request.
\<close>

theorem stream_error_then_read_counterexample:
  "stream_callback
      \<lparr> stc_new = (\<lambda>d. ()), stc_write = (\<lambda>t s. (if s = (0::nat) then [] else [s], t)) \<rparr>
      \<lparr> priv_network = Str ''n1'', priv_siteId = Str ''s1'', priv_articleId = Str ''a1'',
        priv_environment = Undefined, priv_isInitingFromBootstrap = False,
        priv_finishedInitFromBootstrap = True, priv_latestEvent = Str ''E0'',
        priv_collectionId = Str ''C1'' \<rparr>
      (Str ''boom'') None
    = (\<lparr> priv_network = Str ''n1'', priv_siteId = Str ''s1'', priv_articleId = Str ''a1'',
        priv_environment = Undefined, priv_isInitingFromBootstrap = False,
        priv_finishedInitFromBootstrap = True, priv_latestEvent = Str ''E0'',
        priv_collectionId = Str ''C1'' \<rparr>,
       [EmitError (Str ''boom'')], None)
   \<and> (read
      \<lparr> priv_network = Str ''n1'', priv_siteId = Str ''s1'', priv_articleId = Str ''a1'',
        priv_environment = Undefined, priv_isInitingFromBootstrap = False,
        priv_finishedInitFromBootstrap = True, priv_latestEvent = Str ''E0'',
        priv_collectionId = Str ''C1'' \<rparr> :: nat outcome)
    = (\<lparr> priv_network = Str ''n1'', priv_siteId = Str ''s1'', priv_articleId = Str ''a1'',
        priv_environment = Undefined, priv_isInitingFromBootstrap = False,
        priv_finishedInitFromBootstrap = True, priv_latestEvent = Str ''E0'',
        priv_collectionId = Str ''C1'' \<rparr>,
       [StreamRequest \<lparr> environment = Undefined, network = Str ''n1'',
          siteId = Str ''s1'', articleId = Str ''a1'', collectionId = Str ''C1'',
          commentId = Str ''E0'' \<rparr>], None)"
  by (simp add: stream_callback_def read_def stream_def getCollectionOptions_def
      stream_options.defs collection_options.defs)

text \<open>
  C6, amended. A failed stream request emits the error once and does nothing else: no
  request is made from the callback and the instance is left unchanged. No error state
  is recorded, so a later \<open>_read\<close> on an initialised instance makes one stream
  request, with the cursor the failed request had.
\<close>

theorem stream_error_emits_once_and_keeps_state:
  assumes "truthy err" and "priv_finishedInitFromBootstrap u"
  shows "stream_callback stc u err data = (u, [EmitError err], None)
       \<and> (read u :: 'x outcome) =
           (u, [StreamRequest (collection_options.extend (getCollectionOptions u)
                  (stream_options.fields (priv_latestEvent u)))], None)"
  using assms by (simp add: stream_callback_def read_def stream_def)

theorem stream_error_emits_once_and_keeps_state_witness:
  "truthy (Str ''boom'')
   \<and> stream_callback
        \<lparr> stc_new = (\<lambda>d. ()), stc_write = (\<lambda>t s. (if s = (0::nat) then [] else [s], t)) \<rparr>
        \<lparr> priv_network = Str ''n1'', priv_siteId = Str ''s1'', priv_articleId = Str ''a1'',
          priv_environment = Undefined, priv_isInitingFromBootstrap = False,
          priv_finishedInitFromBootstrap = True, priv_latestEvent = Str ''E0'',
          priv_collectionId = Str ''C1'' \<rparr>
        (Str ''boom'') None
      = (\<lparr> priv_network = Str ''n1'', priv_siteId = Str ''s1'', priv_articleId = Str ''a1'',
          priv_environment = Undefined, priv_isInitingFromBootstrap = False,
          priv_finishedInitFromBootstrap = True, priv_latestEvent = Str ''E0'',
          priv_collectionId = Str ''C1'' \<rparr>, [EmitError (Str ''boom'')], None)"
proof -
  let ?u = "\<lparr> priv_network = Str ''n1'', priv_siteId = Str ''s1'', priv_articleId = Str ''a1'',
          priv_environment = Undefined, priv_isInitingFromBootstrap = False,
          priv_finishedInitFromBootstrap = True, priv_latestEvent = Str ''E0'',
          priv_collectionId = Str ''C1'' \<rparr>"
  have e: "truthy (Str ''boom'')" by simp
  have f: "priv_finishedInitFromBootstrap ?u" by simp
  from stream_error_emits_once_and_keeps_state [OF e f, where stc = "\<lparr> stc_new = (\<lambda>d. ()), stc_write = (\<lambda>t s. (if s = (0::nat) then [] else [s], t)) \<rparr>"
      and data = "None :: nat stream_data option" and ?'x = nat] e
  show ?thesis by simp
qed

text \<open>
  C7 (the code at the failing input). The same response: a successful one, no timeout,
  with a state keyed \<open>hasOwnProperty\<close>. The callback throws a TypeError; nothing is
  pushed and no stream request is made, although the response carries a state to
  translate.
\<close>

theorem shadowed_hasOwnProperty_neither_pushes_nor_streams:
  "contentsFromStreamData
      \<lparr> stc_new = (\<lambda>d. ()), stc_write = (\<lambda>t s. (if s = (0::nat) then [] else [s], t)) \<rparr>
      \<lparr> timeout = Undefined, states = [(''hasOwnProperty'', 4)],
                maxEventId = Str ''E1'' \<rparr>
    = Inl TypeError
   \<and> stream_callback
      \<lparr> stc_new = (\<lambda>d. ()), stc_write = (\<lambda>t s. (if s = (0::nat) then [] else [s], t)) \<rparr>
      \<lparr> priv_network = Str ''n1'', priv_siteId = Str ''s1'', priv_articleId = Str ''a1'',
        priv_environment = Undefined, priv_isInitingFromBootstrap = False,
        priv_finishedInitFromBootstrap = True, priv_latestEvent = Str ''E0'',
        priv_collectionId = Str ''C1'' \<rparr>
      Null (Some \<lparr> timeout = Undefined, states = [(''hasOwnProperty'', 4)],
                maxEventId = Str ''E1'' \<rparr>)
    = (\<lparr> priv_network = Str ''n1'', priv_siteId = Str ''s1'', priv_articleId = Str ''a1'',
        priv_environment = Undefined, priv_isInitingFromBootstrap = False,
        priv_finishedInitFromBootstrap = True, priv_latestEvent = Str ''E0'',
        priv_collectionId = Str ''C1'' \<rparr>,
       [], Some TypeError)"
  by (simp add: stream_callback_def contentsFromStreamData_def)

section \<open>Properties of the stash and of ContentListView\<close>

lemma releases_without_goal: "goal s \<le> 0 \<Longrightarrow> releases k s = ([], s)"
  by (induction k) (simp_all add: release_def)

lemma displace_feature_counter:
  "priv_count (objects (fst (displace cl lv)) r) = priv_count (objects lv r) \<and>
   priv_interval (objects (fst (displace cl lv)) r) = priv_interval (objects lv r) \<and>
   feature (fst (displace cl lv)) = feature lv"
  by (simp add: displace_def remove_def saveForLater_def stack_def setGoal_def Let_def
      split: list.splits)

lemma cadence_counter:
  "priv_count (cadence f) =
     (if priv_count f + 1 = priv_interval f then - 1 else priv_count f + 1) \<and>
   priv_interval (cadence f) = priv_interval f \<and>
   entities (cadence f) = entities f \<and>
   goal (cadence f) = (if priv_count f + 1 = priv_interval f then 1 else goal f)"
  by (simp add: cadence_def setGoal_def Let_def)

lemma displace_nonempty:
  "views lv \<noteq> [] \<Longrightarrow>
   displace cl lv =
     (lv\<lparr>objects := (objects lv)
           (lv_more lv := setGoal 0 (objects lv (lv_more lv)),
            priv_stash lv := stack (content (last (views lv)))
              (((objects lv)(lv_more lv := setGoal 0 (objects lv (lv_more lv))))
                 (priv_stash lv))),
         views := ListView_remove cl (views lv) (last (views lv))\<rparr>, None)"
  by (cases "views lv") (simp_all add: displace_def remove_def saveForLater_def Let_def)

lemma add_new_content_overflow:
  assumes "getContentView lv c = None" and "priv_bound lv"
    and "int (length (views lv)) > priv_maxVisibleItems lv" and "views lv \<noteq> []"
  shows "snd (add cl (Content c) index lv) = None"
    and "views (fst (add cl (Content c) index lv)) =
           ListView_add cl (ListView_remove cl (views lv) (last (views lv)))
             (createContentView cl c) index"
    and "entities (objects (fst (add cl (Content c) index lv)) (priv_stash lv)) =
           content (last (views lv)) # entities (objects lv (priv_stash lv))"
    and "priv_stash (fst (add cl (Content c) index lv)) = priv_stash lv"
  using assms
  by (simp_all add: hasVisibleVacancy_def displace_nonempty Let_def cadence_counter
      stack_def setGoal_def)

lemma add_new_content_vacancy:
  assumes "getContentView lv c = None"
    and "\<not> (priv_bound lv \<and> int (length (views lv)) > priv_maxVisibleItems lv)"
  shows "snd (add cl (Content c) index lv) = None"
    and "views (fst (add cl (Content c) index lv)) =
           ListView_add cl (views lv) (createContentView cl c) index"
    and "entities (objects (fst (add cl (Content c) index lv)) (priv_stash lv)) =
           entities (objects lv (priv_stash lv))"
    and "priv_stash (fst (add cl (Content c) index lv)) = priv_stash lv"
  using assms
  by (auto simp add: hasVisibleVacancy_def Let_def cadence_counter)

lemma add_creates_view_counter:
  assumes "getContentView lv c = None" and "snd (add cl (Content c) index lv) = None"
  shows "feature (fst (add cl (Content c) index lv)) = feature lv"
    and "priv_interval (objects (fst (add cl (Content c) index lv)) (feature lv))
           = priv_interval (objects lv (feature lv))"
    and "feature_count (fst (add cl (Content c) index lv))
           = (if feature_count lv + 1 = priv_interval (objects lv (feature lv))
              then - 1 else feature_count lv + 1)"
    and "feature_count lv + 1 = priv_interval (objects lv (feature lv)) \<Longrightarrow>
         goal (objects (fst (add cl (Content c) index lv)) (feature lv)) = 1"
proof -
  let ?lv1 = "fst (if priv_bound lv \<and> \<not> hasVisibleVacancy lv then displace cl lv
                   else (lv, None))"
  have d: "priv_count (objects ?lv1 (feature lv)) = priv_count (objects lv (feature lv))
      \<and> priv_interval (objects ?lv1 (feature lv)) = priv_interval (objects lv (feature lv))
      \<and> feature ?lv1 = feature lv"
    by (simp add: displace_feature_counter)
  have nothrow: "snd (if priv_bound lv \<and> \<not> hasVisibleVacancy lv then displace cl lv
                      else (lv, None)) = None"
  proof (cases "priv_bound lv \<and> \<not> hasVisibleVacancy lv")
    case True
    show ?thesis
    proof (cases "snd (displace cl lv)")
      case None
      with True show ?thesis by simp
    next
      case (Some e)
      with True assms(1) have "snd (add cl (Content c) index lv) = Some e"
        by (simp add: case_prod_unfold Let_def)
      with assms(2) show ?thesis by simp
    qed
  next
    case False
    then show ?thesis by auto
  qed
  have a: "objects (fst (add cl (Content c) index lv)) (feature lv)
             = cadence (objects ?lv1 (feature lv))
         \<and> feature (fst (add cl (Content c) index lv)) = feature lv"
    using assms(1) nothrow d by (simp add: case_prod_unfold Let_def)
  from a show "feature (fst (add cl (Content c) index lv)) = feature lv" by simp
  from a d show "priv_interval (objects (fst (add cl (Content c) index lv)) (feature lv))
           = priv_interval (objects lv (feature lv))"
    by (simp add: cadence_counter)
  from a d show "feature_count (fst (add cl (Content c) index lv))
           = (if feature_count lv + 1 = priv_interval (objects lv (feature lv))
              then - 1 else feature_count lv + 1)"
    by (simp add: cadence_counter feature_count_def)
  from a d show "feature_count lv + 1 = priv_interval (objects lv (feature lv)) \<Longrightarrow>
         goal (objects (fst (add cl (Content c) index lv)) (feature lv)) = 1"
    by (simp add: cadence_counter feature_count_def)
qed

lemma add_all_append: "add_all cl (r @ s) lv = add_all cl s (add_all cl r lv)"
  by (induction cl r lv rule: add_all.induct) (simp_all del: add.simps)

lemma creates_views_append:
  "creates_views cl (r @ s) lv =
     (creates_views cl r lv \<and> creates_views cl s (add_all cl r lv))"
  by (induction cl r lv rule: creates_views.induct) (simp_all del: add.simps)

lemma add_all_counts:
  "creates_views cl r lv \<Longrightarrow>
   feature_count lv + int (length r) < priv_interval (objects lv (feature lv)) \<Longrightarrow>
   feature_count (add_all cl r lv) = feature_count lv + int (length r) \<and>
   priv_interval (objects (add_all cl r lv) (feature lv))
     = priv_interval (objects lv (feature lv)) \<and>
   feature (add_all cl r lv) = feature lv"
proof (induction cl r lv rule: creates_views.induct)
  case (1 cl lv)
  then show ?case by simp
next
  case (2 cl v index run lv)
  then show ?case by simp
next
  case (3 cl c index run lv)
  let ?lv = "fst (add cl (Content c) index lv)"
  from "3.prems"(1) have new: "getContentView lv c = None"
    and nothrow: "snd (add cl (Content c) index lv) = None"
    and rest: "creates_views cl run ?lv" by (simp_all del: add.simps)
  note step = add_creates_view_counter [OF new nothrow]
  from "3.prems"(2) have "feature_count lv + 1 \<noteq> priv_interval (objects lv (feature lv))"
    by simp
  with step(3) have cnt: "feature_count ?lv = feature_count lv + 1" by simp
  from step(1,2) have itv: "priv_interval (objects ?lv (feature ?lv))
      = priv_interval (objects lv (feature lv))" by simp
  from "3.prems"(2) cnt itv
  have "feature_count ?lv + int (length run) < priv_interval (objects ?lv (feature ?lv))"
    by simp
  from "3.IH" [OF rest this] cnt itv step(1) show ?case by (simp del: add.simps)
qed

text \<open>
  C8. The stash is last-in-first-out: \<open>saveForLater\<close> stacks onto \<open>this._stash\<close>, and
  after \<open>stack(a)\<close>, \<open>stack(b)\<close> the releases hand out \<open>b\<close> first, then \<open>a\<close> (if
  the goal allows a second one). After \<open>setGoal(0)\<close> no number of release events
  releases anything or changes the stash, whatever the cadence counter and the interval
  are; after a later \<open>setGoal(n)\<close> with \<open>n > 0\<close> the next release hands out \<open>b\<close>.
  The overflow branch of \<open>add\<close> leaves the stash that way when \<open>this._stash\<close> is
  \<open>this.more\<close>: the displaced content on top, and every release blocked.
\<close>

theorem stash_lifo_and_goal_zero_blocks:
  assumes "0 < n"
  shows "objects (saveForLater b (saveForLater a lv)) (priv_stash lv) =
           stack b (stack a (objects lv (priv_stash lv)))
       \<and> fst (releases 2 (setGoal n (stack b (stack a s)))) = (if n = 1 then [b] else [b, a])
       \<and> releases k (setGoal 0 (stack b (stack a s))) = ([], setGoal 0 (stack b (stack a s)))
       \<and> fst (release (setGoal n (snd (releases k (setGoal 0 (stack b (stack a s)))))))
           = Some b
       \<and> (if views lv \<noteq> [] \<and> lv_more lv = priv_stash lv
          then entities (objects (fst (displace cl lv)) (priv_stash lv))
                 = content (last (views lv)) # entities (objects lv (priv_stash lv))
             \<and> fst (releases k (objects (fst (displace cl lv)) (priv_stash lv))) = []
          else True)"
proof -
  have g0: "goal (setGoal 0 (stack b (stack a s))) \<le> 0"
    by (simp add: setGoal_def)
  have blocked: "releases k (setGoal 0 (stack b (stack a s))) =
      ([], setGoal 0 (stack b (stack a s)))"
    using g0 by (rule releases_without_goal)
  have lifo: "fst (releases 2 (setGoal n (stack b (stack a s)))) =
      (if n = 1 then [b] else [b, a])"
    using assms
    by (simp add: numeral_2_eq_2 release_def setGoal_def stack_def Let_def)
  have saved: "objects (saveForLater b (saveForLater a lv)) (priv_stash lv) =
      stack b (stack a (objects lv (priv_stash lv)))"
    by (simp add: saveForLater_def)
  have again: "fst (release (setGoal n (snd (releases k (setGoal 0 (stack b (stack a s)))))))
      = Some b"
    unfolding blocked using assms by (simp add: release_def setGoal_def stack_def)
  have displaced: "views lv \<noteq> [] \<and> lv_more lv = priv_stash lv \<Longrightarrow>
      entities (objects (fst (displace cl lv)) (priv_stash lv))
        = content (last (views lv)) # entities (objects lv (priv_stash lv))
      \<and> fst (releases k (objects (fst (displace cl lv)) (priv_stash lv))) = []"
    by (simp add: displace_nonempty stack_def setGoal_def releases_without_goal)
  from saved lifo blocked again displaced show ?thesis by simp
qed

theorem stash_lifo_and_goal_zero_blocks_witness:
  "(0::int) < 2
   \<and> fst (releases 2 (setGoal 2
        (stack \<lparr> content_ref = 2, content_id = Str ''b'' \<rparr>
          (stack \<lparr> content_ref = 1, content_id = Str ''a'' \<rparr>
            \<lparr> entities = [], goal = 0, priv_count = 4, priv_interval = 5 \<rparr>))))
      = [\<lparr> content_ref = 2, content_id = Str ''b'' \<rparr>,
         \<lparr> content_ref = 1, content_id = Str ''a'' \<rparr>]
   \<and> fst (releases 3 (setGoal 0
        (stack \<lparr> content_ref = 2, content_id = Str ''b'' \<rparr>
          (stack \<lparr> content_ref = 1, content_id = Str ''a'' \<rparr>
            \<lparr> entities = [], goal = 7, priv_count = 4, priv_interval = 5 \<rparr>))))
      = []"
proof -
  have h: "(0::int) < 2" by simp
  from stash_lifo_and_goal_zero_blocks [OF h,
      where s = "\<lparr> entities = [], goal = 0, priv_count = 4, priv_interval = 5 \<rparr>"
        and a = "\<lparr> content_ref = 1, content_id = Str ''a'' \<rparr>"
        and b = "\<lparr> content_ref = 2, content_id = Str ''b'' \<rparr>" and k = 3
        and cl = "\<lparr> ListView_add = (\<lambda>vs v i. v # vs),
                   ListView_remove = (\<lambda>vs v. remove1 v vs),
                   factory_createContentView =
                     (\<lambda>c. \<lparr> view_ref = content_ref c, content = c \<rparr>) \<rparr>"
        and lv = "\<lparr> views = [], lv_more = 0, priv_stash = 0, feature = 1,
                   priv_maxVisibleItems = 50, priv_bound = True,
                   objects = (\<lambda>r. \<lparr> entities = [], goal = 0, priv_count = 0,
                                      priv_interval = 5 \<rparr>) \<rparr>"]
       stash_lifo_and_goal_zero_blocks [OF h,
      where s = "\<lparr> entities = [], goal = 7, priv_count = 4, priv_interval = 5 \<rparr>"
        and a = "\<lparr> content_ref = 1, content_id = Str ''a'' \<rparr>"
        and b = "\<lparr> content_ref = 2, content_id = Str ''b'' \<rparr>" and k = 3
        and cl = "\<lparr> ListView_add = (\<lambda>vs v i. v # vs),
                   ListView_remove = (\<lambda>vs v. remove1 v vs),
                   factory_createContentView =
                     (\<lambda>c. \<lparr> view_ref = content_ref c, content = c \<rparr>) \<rparr>"
        and lv = "\<lparr> views = [], lv_more = 0, priv_stash = 0, feature = 1,
                   priv_maxVisibleItems = 50, priv_bound = True,
                   objects = (\<lambda>r. \<lparr> entities = [], goal = 0, priv_count = 0,
                                      priv_interval = 5 \<rparr>) \<rparr>"]
  show ?thesis by simp
qed

text \<open>
  C9 as stated fails, clause by clause. The list has the constructor's wiring
  (\<open>_stash\<close> is \<open>more\<close>, \<open>feature\<close> is a stream of its own) and the interval is
  \<open>2\<close>.
  \<^item> An item that is inserted is not always counted: \<open>add\<close> of a view inserts it and
    leaves the counter at \<open>0\<close>.
  \<^item> Reaching the interval releases no stashed entity: the \<open>add\<close> that displaces a
    view and reaches the interval leaves the displaced content in the stash with goal
    \<open>0\<close>, and sets the goal of \<open>feature\<close>, which holds nothing; a release of
    either hands out nothing.
  \<^item> The new interval is not of the same length: from the counter at \<open>0\<close> the
    second \<open>add\<close> reaches the interval and leaves the counter at \<open>-1\<close>; two more
    leave it at \<open>1\<close>, and only the third reaches the interval again.
  \<^item> The same with an entity in \<open>feature\<close>: once the second \<open>add\<close> has set the
    goal, the \<open>readable\<close> function releases the entity and adds it, which brings the
    counter to \<open>0\<close>; after one more \<open>add\<close>, the second insertion since the reset,
    the counter is \<open>1\<close>, short of the interval.
\<close>

theorem cadence_counter_counterexample:
  "views (fst (add
                      \<lparr> ListView_add = (\<lambda>vs v i. v # vs),
                        ListView_remove = (\<lambda>vs v. remove1 v vs),
                        factory_createContentView = (\<lambda>c. \<lparr> view_ref = content_ref c, content = c \<rparr>) \<rparr>
                      (View \<lparr> view_ref = 9, content = \<lparr> content_ref = 9, content_id = Num 9 \<rparr> \<rparr>) Undefined
                      \<lparr> views = [],
                        lv_more = 0, priv_stash = 0, feature = 1,
                        priv_maxVisibleItems = 50, priv_bound = True,
                        objects = (\<lambda>r. \<lparr> entities = [], goal = 0, priv_count = 0,
                                          priv_interval = 2 \<rparr>) \<rparr>))
          = [\<lparr> view_ref = 9, content = \<lparr> content_ref = 9, content_id = Num 9 \<rparr> \<rparr>]
   \<and> feature_count (fst (add
                              \<lparr> ListView_add = (\<lambda>vs v i. v # vs),
                                ListView_remove = (\<lambda>vs v. remove1 v vs),
                                factory_createContentView = (\<lambda>c. \<lparr> view_ref = content_ref c, content = c \<rparr>) \<rparr>
                              (View \<lparr> view_ref = 9, content = \<lparr> content_ref = 9, content_id = Num 9 \<rparr> \<rparr>) Undefined
                              \<lparr> views = [],
                                lv_more = 0, priv_stash = 0, feature = 1,
                                priv_maxVisibleItems = 50, priv_bound = True,
                                objects = (\<lambda>r. \<lparr> entities = [], goal = 0, priv_count = 0,
                                                  priv_interval = 2 \<rparr>) \<rparr>)) = 0
   \<and> entities (objects (fst (add
                                 \<lparr> ListView_add = (\<lambda>vs v i. v # vs),
                                   ListView_remove = (\<lambda>vs v. remove1 v vs),
                                   factory_createContentView = (\<lambda>c. \<lparr> view_ref = content_ref c, content = c \<rparr>) \<rparr>
                                 (Content \<lparr> content_ref = 3, content_id = Num 3 \<rparr>) Undefined
                                 \<lparr> views = [\<lparr> view_ref = 2, content = \<lparr> content_ref = 2, content_id = Num 2 \<rparr> \<rparr>,
                                            \<lparr> view_ref = 1, content = \<lparr> content_ref = 1, content_id = Num 1 \<rparr> \<rparr>],
                                   lv_more = 0, priv_stash = 0, feature = 1,
                                   priv_maxVisibleItems = 1, priv_bound = True,
                                   objects = (\<lambda>r. \<lparr> entities = [], goal = 0, priv_count = 1,
                                                     priv_interval = 2 \<rparr>) \<rparr>)) 0)
          = [\<lparr> content_ref = 1, content_id = Num 1 \<rparr>]
   \<and> goal (objects (fst (add
                             \<lparr> ListView_add = (\<lambda>vs v i. v # vs),
                               ListView_remove = (\<lambda>vs v. remove1 v vs),
                               factory_createContentView = (\<lambda>c. \<lparr> view_ref = content_ref c, content = c \<rparr>) \<rparr>
                             (Content \<lparr> content_ref = 3, content_id = Num 3 \<rparr>) Undefined
                             \<lparr> views = [\<lparr> view_ref = 2, content = \<lparr> content_ref = 2, content_id = Num 2 \<rparr> \<rparr>,
                                        \<lparr> view_ref = 1, content = \<lparr> content_ref = 1, content_id = Num 1 \<rparr> \<rparr>],
                               lv_more = 0, priv_stash = 0, feature = 1,
                               priv_maxVisibleItems = 1, priv_bound = True,
                               objects = (\<lambda>r. \<lparr> entities = [], goal = 0, priv_count = 1,
                                                 priv_interval = 2 \<rparr>) \<rparr>)) 1) = 1
   \<and> fst (release (objects (fst (add
                                     \<lparr> ListView_add = (\<lambda>vs v i. v # vs),
                                       ListView_remove = (\<lambda>vs v. remove1 v vs),
                                       factory_createContentView = (\<lambda>c. \<lparr> view_ref = content_ref c, content = c \<rparr>) \<rparr>
                                     (Content \<lparr> content_ref = 3, content_id = Num 3 \<rparr>) Undefined
                                     \<lparr> views = [\<lparr> view_ref = 2, content = \<lparr> content_ref = 2, content_id = Num 2 \<rparr> \<rparr>,
                                                \<lparr> view_ref = 1, content = \<lparr> content_ref = 1, content_id = Num 1 \<rparr> \<rparr>],
                                       lv_more = 0, priv_stash = 0, feature = 1,
                                       priv_maxVisibleItems = 1, priv_bound = True,
                                       objects = (\<lambda>r. \<lparr> entities = [], goal = 0, priv_count = 1,
                                                         priv_interval = 2 \<rparr>) \<rparr>)) 1)) = None
   \<and> fst (release (objects (fst (add
                                     \<lparr> ListView_add = (\<lambda>vs v i. v # vs),
                                       ListView_remove = (\<lambda>vs v. remove1 v vs),
                                       factory_createContentView = (\<lambda>c. \<lparr> view_ref = content_ref c, content = c \<rparr>) \<rparr>
                                     (Content \<lparr> content_ref = 3, content_id = Num 3 \<rparr>) Undefined
                                     \<lparr> views = [\<lparr> view_ref = 2, content = \<lparr> content_ref = 2, content_id = Num 2 \<rparr> \<rparr>,
                                                \<lparr> view_ref = 1, content = \<lparr> content_ref = 1, content_id = Num 1 \<rparr> \<rparr>],
                                       lv_more = 0, priv_stash = 0, feature = 1,
                                       priv_maxVisibleItems = 1, priv_bound = True,
                                       objects = (\<lambda>r. \<lparr> entities = [], goal = 0, priv_count = 1,
                                                         priv_interval = 2 \<rparr>) \<rparr>)) 0)) = None
   \<and> feature_count (add_all
                         \<lparr> ListView_add = (\<lambda>vs v i. v # vs),
                           ListView_remove = (\<lambda>vs v. remove1 v vs),
                           factory_createContentView = (\<lambda>c. \<lparr> view_ref = content_ref c, content = c \<rparr>) \<rparr>
                         [(Content \<lparr> content_ref = 1, content_id = Num 1 \<rparr>, Undefined),
                            (Content \<lparr> content_ref = 2, content_id = Num 2 \<rparr>, Undefined)]
                         \<lparr> views = [],
                           lv_more = 0, priv_stash = 0, feature = 1,
                           priv_maxVisibleItems = 50, priv_bound = True,
                           objects = (\<lambda>r. \<lparr> entities = [], goal = 0, priv_count = 0,
                                             priv_interval = 2 \<rparr>) \<rparr>) = - 1
   \<and> feature_count (add_all
                         \<lparr> ListView_add = (\<lambda>vs v i. v # vs),
                           ListView_remove = (\<lambda>vs v. remove1 v vs),
                           factory_createContentView = (\<lambda>c. \<lparr> view_ref = content_ref c, content = c \<rparr>) \<rparr>
                         [(Content \<lparr> content_ref = 1, content_id = Num 1 \<rparr>, Undefined),
                            (Content \<lparr> content_ref = 2, content_id = Num 2 \<rparr>, Undefined),
                            (Content \<lparr> content_ref = 3, content_id = Num 3 \<rparr>, Undefined),
                            (Content \<lparr> content_ref = 4, content_id = Num 4 \<rparr>, Undefined)]
                         \<lparr> views = [],
                           lv_more = 0, priv_stash = 0, feature = 1,
                           priv_maxVisibleItems = 50, priv_bound = True,
                           objects = (\<lambda>r. \<lparr> entities = [], goal = 0, priv_count = 0,
                                             priv_interval = 2 \<rparr>) \<rparr>) = 1
   \<and> feature_count (add_all
                         \<lparr> ListView_add = (\<lambda>vs v i. v # vs),
                           ListView_remove = (\<lambda>vs v. remove1 v vs),
                           factory_createContentView = (\<lambda>c. \<lparr> view_ref = content_ref c, content = c \<rparr>) \<rparr>
                         [(Content \<lparr> content_ref = 1, content_id = Num 1 \<rparr>, Undefined),
                            (Content \<lparr> content_ref = 2, content_id = Num 2 \<rparr>, Undefined),
                            (Content \<lparr> content_ref = 3, content_id = Num 3 \<rparr>, Undefined),
                            (Content \<lparr> content_ref = 4, content_id = Num 4 \<rparr>, Undefined),
                            (Content \<lparr> content_ref = 5, content_id = Num 5 \<rparr>, Undefined)]
                         \<lparr> views = [],
                           lv_more = 0, priv_stash = 0, feature = 1,
                           priv_maxVisibleItems = 50, priv_bound = True,
                           objects = (\<lambda>r. \<lparr> entities = [], goal = 0, priv_count = 0,
                                             priv_interval = 2 \<rparr>) \<rparr>) = - 1
   \<and> feature_count (add_all
                         \<lparr> ListView_add = (\<lambda>vs v i. v # vs),
                           ListView_remove = (\<lambda>vs v. remove1 v vs),
                           factory_createContentView = (\<lambda>c. \<lparr> view_ref = content_ref c, content = c \<rparr>) \<rparr>
                         [(Content \<lparr> content_ref = 1, content_id = Num 1 \<rparr>, Undefined),
                            (Content \<lparr> content_ref = 2, content_id = Num 2 \<rparr>, Undefined)]
                         \<lparr> views = [],
                           lv_more = 0, priv_stash = 0, feature = 1,
                           priv_maxVisibleItems = 50, priv_bound = True,
                           objects = (\<lambda>r. if r = 1
                                        then \<lparr> entities = [\<lparr> content_ref = 9, content_id = Num 9 \<rparr>], goal = 0,
                                               priv_count = 0, priv_interval = 2 \<rparr>
                                        else \<lparr> entities = [], goal = 0, priv_count = 0, priv_interval = 0 \<rparr>) \<rparr>) = - 1
   \<and> map_option (feature_count \<circ> fst)
          (pipeFeature_readable 2
             \<lparr> ListView_add = (\<lambda>vs v i. v # vs),
               ListView_remove = (\<lambda>vs v. remove1 v vs),
               factory_createContentView = (\<lambda>c. \<lparr> view_ref = content_ref c, content = c \<rparr>) \<rparr>
             (add_all
                \<lparr> ListView_add = (\<lambda>vs v i. v # vs),
                  ListView_remove = (\<lambda>vs v. remove1 v vs),
                  factory_createContentView = (\<lambda>c. \<lparr> view_ref = content_ref c, content = c \<rparr>) \<rparr>
                [(Content \<lparr> content_ref = 1, content_id = Num 1 \<rparr>, Undefined),
                   (Content \<lparr> content_ref = 2, content_id = Num 2 \<rparr>, Undefined)]
                \<lparr> views = [],
                  lv_more = 0, priv_stash = 0, feature = 1,
                  priv_maxVisibleItems = 50, priv_bound = True,
                  objects = (\<lambda>r. if r = 1
                               then \<lparr> entities = [\<lparr> content_ref = 9, content_id = Num 9 \<rparr>], goal = 0,
                                      priv_count = 0, priv_interval = 2 \<rparr>
                               else \<lparr> entities = [], goal = 0, priv_count = 0, priv_interval = 0 \<rparr>) \<rparr>)) = Some 0
   \<and> map_option (feature_count \<circ>
            add_all
              \<lparr> ListView_add = (\<lambda>vs v i. v # vs),
                ListView_remove = (\<lambda>vs v. remove1 v vs),
                factory_createContentView = (\<lambda>c. \<lparr> view_ref = content_ref c, content = c \<rparr>) \<rparr>
              [(Content \<lparr> content_ref = 3, content_id = Num 3 \<rparr>, Undefined)] \<circ> fst)
          (pipeFeature_readable 2
             \<lparr> ListView_add = (\<lambda>vs v i. v # vs),
               ListView_remove = (\<lambda>vs v. remove1 v vs),
               factory_createContentView = (\<lambda>c. \<lparr> view_ref = content_ref c, content = c \<rparr>) \<rparr>
             (add_all
                \<lparr> ListView_add = (\<lambda>vs v i. v # vs),
                  ListView_remove = (\<lambda>vs v. remove1 v vs),
                  factory_createContentView = (\<lambda>c. \<lparr> view_ref = content_ref c, content = c \<rparr>) \<rparr>
                [(Content \<lparr> content_ref = 1, content_id = Num 1 \<rparr>, Undefined),
                   (Content \<lparr> content_ref = 2, content_id = Num 2 \<rparr>, Undefined)]
                \<lparr> views = [],
                  lv_more = 0, priv_stash = 0, feature = 1,
                  priv_maxVisibleItems = 50, priv_bound = True,
                  objects = (\<lambda>r. if r = 1
                               then \<lparr> entities = [\<lparr> content_ref = 9, content_id = Num 9 \<rparr>], goal = 0,
                                      priv_count = 0, priv_interval = 2 \<rparr>
                               else \<lparr> entities = [], goal = 0, priv_count = 0, priv_interval = 0 \<rparr>) \<rparr>)) = Some 1"
  by (simp add: getContentView_def hasVisibleVacancy_def createContentView_def
      cadence_def setGoal_def Let_def feature_count_def feature_read_def release_def
      displace_def remove_def saveForLater_def stack_def numeral_2_eq_2)

text \<open>
  C9, amended. A call of \<open>add\<close> that creates a view (the content has none yet, and
  nothing is thrown) increments the counter of \<open>this.feature\<close> exactly once and
  leaves its interval alone; a call that is given a view, or a content that has a view,
  changes neither stream. When the incremented counter equals the interval, the goal
  of \<open>this.feature\<close> is set to \<open>1\<close> and the counter to \<open>-1\<close>. So the next
  interval is one insertion longer than the configured one: in a run of \<open>add\<close>
  calls that create views, starting from a reset and one longer than the interval, the
  counter is \<open>k - 1\<close> after the first \<open>k\<close> calls, for every \<open>k\<close> short of the
  whole run, and the last call of the run reaches the interval, resets the counter and
  sets the goal.
\<close>

theorem add_counts_created_views_and_resets_to_minus_one:
  assumes "getContentView lv c = None" and "snd (add cl (Content c) index lv) = None"
    and "creates_views cl r lv0" and "feature_count lv0 = - 1"
    and "int (length r) = priv_interval (objects lv0 (feature lv0)) + 1"
    and "k < length r"
  shows "feature_count (fst (add cl (Content c) index lv))
           = (if feature_count lv + 1 = priv_interval (objects lv (feature lv))
              then - 1 else feature_count lv + 1)
       \<and> priv_interval (objects (fst (add cl (Content c) index lv)) (feature lv))
           = priv_interval (objects lv (feature lv))
       \<and> feature (fst (add cl (Content c) index lv)) = feature lv
       \<and> (if feature_count lv + 1 = priv_interval (objects lv (feature lv))
          then goal (objects (fst (add cl (Content c) index lv)) (feature lv)) = 1
          else True)
       \<and> objects (fst (add cl (View v) index lv)) = objects lv
       \<and> (if getContentView lv c' = None then True
          else objects (fst (add cl (Content c') index lv)) = objects lv)
       \<and> feature_count (add_all cl (take k r) lv0) = int k - 1
       \<and> feature_count (add_all cl r lv0) = - 1
       \<and> goal (objects (add_all cl r lv0) (feature lv0)) = 1"
proof -
  note one = add_creates_view_counter [OF assms(1,2)]
  have viewed: "objects (fst (add cl (View v) index lv)) = objects lv" by simp
  have known: "getContentView lv c' \<noteq> None \<Longrightarrow>
      objects (fst (add cl (Content c') index lv)) = objects lv"
    by auto
  let ?n = "priv_interval (objects lv0 (feature lv0))"
  \<comment> \<open>the first \<open>k\<close> calls\<close>
  have split_k: "r = take k r @ drop k r" by simp
  from assms(3) have cv_k: "creates_views cl (take k r) lv0"
    by (subst (asm) split_k) (simp only: creates_views_append)
  from assms(4,5,6) have room_k: "feature_count lv0 + int (length (take k r)) < ?n"
    by simp
  from add_all_counts [OF cv_k room_k] assms(4,6)
  have first_k: "feature_count (add_all cl (take k r) lv0) = int k - 1" by simp
  \<comment> \<open>all calls but the last, then the last\<close>
  from assms(6) have ne: "r \<noteq> []" by auto
  then have split_l: "r = butlast r @ [last r]" by simp
  from assms(3) have cv_b: "creates_views cl (butlast r) lv0"
    and cv_l: "creates_views cl [last r] (add_all cl (butlast r) lv0)"
    by (subst (asm) split_l, simp only: creates_views_append)+
  from ne have "int (length (butlast r)) = int (length r) - 1" by (cases r) simp_all
  with assms(4,5) have room_b: "feature_count lv0 + int (length (butlast r)) < ?n"
    by simp
  let ?lvb = "add_all cl (butlast r) lv0"
  from add_all_counts [OF cv_b room_b] assms(4,5) \<open>int (length (butlast r)) = int (length r) - 1\<close>
  have before: "feature_count ?lvb = ?n - 1"
    and itv: "priv_interval (objects ?lvb (feature lv0)) = ?n"
    and ref: "feature ?lvb = feature lv0"
    by simp_all
  obtain x i where li: "last r = (x, i)" by (cases "last r")
  from cv_l li obtain c0 where x: "x = Content c0"
    by (cases x) (simp_all del: add.simps)
  from cv_l li x have new0: "getContentView ?lvb c0 = None"
    and nothrow0: "snd (add cl (Content c0) i ?lvb) = None"
    by (simp_all del: add.simps)
  note lst = add_creates_view_counter [OF new0 nothrow0]
  have whole: "add_all cl r lv0 = fst (add cl (Content c0) i ?lvb)"
    by (subst split_l) (simp add: add_all_append li x del: add.simps)
  from before itv ref have hit: "feature_count ?lvb + 1 = priv_interval (objects ?lvb (feature ?lvb))"
    by simp
  from lst(3) hit have last_c: "feature_count (add_all cl r lv0) = - 1"
    by (simp add: whole del: add.simps)
  from lst(4) [OF hit] ref have last_g: "goal (objects (add_all cl r lv0) (feature lv0)) = 1"
    by (simp add: whole del: add.simps)
  from one(1,2,3) one(4) viewed known first_k last_c last_g show ?thesis
    by (simp del: add.simps)
qed

theorem add_counts_created_views_and_resets_to_minus_one_witness:
  "feature_count (fst (add
                              \<lparr> ListView_add = (\<lambda>vs v i. v # vs),
                                ListView_remove = (\<lambda>vs v. remove1 v vs),
                                factory_createContentView = (\<lambda>c. \<lparr> view_ref = content_ref c, content = c \<rparr>) \<rparr>
                              (Content \<lparr> content_ref = 7, content_id = Num 7 \<rparr>) Undefined
                              \<lparr> views = [],
                                lv_more = 0, priv_stash = 0, feature = 1,
                                priv_maxVisibleItems = 50, priv_bound = True,
                                objects = (\<lambda>r. \<lparr> entities = [], goal = 0, priv_count = 1,
                                                  priv_interval = 2 \<rparr>) \<rparr>)) = - 1
   \<and> feature_count (add_all
          \<lparr> ListView_add = (\<lambda>vs v i. v # vs),
            ListView_remove = (\<lambda>vs v. remove1 v vs),
            factory_createContentView = (\<lambda>c. \<lparr> view_ref = content_ref c, content = c \<rparr>) \<rparr>
          (take 2
            [(Content \<lparr> content_ref = 1, content_id = Num 1 \<rparr>, Undefined),
               (Content \<lparr> content_ref = 2, content_id = Num 2 \<rparr>, Undefined),
               (Content \<lparr> content_ref = 3, content_id = Num 3 \<rparr>, Undefined)])
          \<lparr> views = [],
            lv_more = 0, priv_stash = 0, feature = 1,
            priv_maxVisibleItems = 50, priv_bound = True,
            objects = (\<lambda>r. \<lparr> entities = [], goal = 0, priv_count = - 1,
                              priv_interval = 2 \<rparr>) \<rparr>) = 1
   \<and> feature_count (add_all
                         \<lparr> ListView_add = (\<lambda>vs v i. v # vs),
                           ListView_remove = (\<lambda>vs v. remove1 v vs),
                           factory_createContentView = (\<lambda>c. \<lparr> view_ref = content_ref c, content = c \<rparr>) \<rparr>
                         [(Content \<lparr> content_ref = 1, content_id = Num 1 \<rparr>, Undefined),
                            (Content \<lparr> content_ref = 2, content_id = Num 2 \<rparr>, Undefined),
                            (Content \<lparr> content_ref = 3, content_id = Num 3 \<rparr>, Undefined)]
                         \<lparr> views = [],
                           lv_more = 0, priv_stash = 0, feature = 1,
                           priv_maxVisibleItems = 50, priv_bound = True,
                           objects = (\<lambda>r. \<lparr> entities = [], goal = 0, priv_count = - 1,
                                             priv_interval = 2 \<rparr>) \<rparr>) = - 1"
proof -
  let ?cl = "\<lparr> ListView_add = (\<lambda>vs v i. v # vs),
               ListView_remove = (\<lambda>vs v. remove1 v vs),
               factory_createContentView = (\<lambda>c. \<lparr> view_ref = content_ref c, content = c \<rparr>) \<rparr>"
  let ?lv = "\<lparr> views = [],
               lv_more = 0, priv_stash = 0, feature = 1,
               priv_maxVisibleItems = 50, priv_bound = True,
               objects = (\<lambda>r. \<lparr> entities = [], goal = 0, priv_count = 1,
                                 priv_interval = 2 \<rparr>) \<rparr>"
  let ?c = "\<lparr> content_ref = 7, content_id = Num 7 \<rparr>"
  let ?start = "\<lparr> views = [],
                  lv_more = 0, priv_stash = 0, feature = 1,
                  priv_maxVisibleItems = 50, priv_bound = True,
                  objects = (\<lambda>r. \<lparr> entities = [], goal = 0, priv_count = - 1,
                                    priv_interval = 2 \<rparr>) \<rparr>"
  let ?r = "[(Content \<lparr> content_ref = 1, content_id = Num 1 \<rparr>, Undefined),
               (Content \<lparr> content_ref = 2, content_id = Num 2 \<rparr>, Undefined),
               (Content \<lparr> content_ref = 3, content_id = Num 3 \<rparr>, Undefined)]"
  have new: "getContentView ?lv ?c = None" by (simp add: getContentView_def)
  have nothrow: "snd (add ?cl (Content ?c) Undefined ?lv) = None"
    by (simp add: getContentView_def hasVisibleVacancy_def Let_def)
  have run: "creates_views ?cl ?r ?start"
    by (simp add: getContentView_def hasVisibleVacancy_def createContentView_def
        cadence_def setGoal_def Let_def)
  have reset: "feature_count ?start = - 1" by (simp add: feature_count_def)
  have len: "int (length ?r) = priv_interval (objects ?start (feature ?start)) + 1" by simp
  have k: "2 < length ?r" by simp
  note T = add_counts_created_views_and_resets_to_minus_one [OF new nothrow run reset len k,
      where v = "\<lparr> view_ref = 8, content = \<lparr> content_ref = 8, content_id = Num 8 \<rparr> \<rparr>"
        and c' = "\<lparr> content_ref = 8, content_id = Num 8 \<rparr>"]
  have fc: "feature_count ?lv = 1" by (simp add: feature_count_def)
  from T fc show ?thesis by (simp del: add.simps)
qed

text \<open>
  C10 as stated fails. On a bounded list with \<open>_maxVisibleItems = 1\<close> that holds two
  views, \<open>add\<close> of a view, and \<open>add\<close> of a content that has a view, hand the view
  to \<open>ListView.prototype.add\<close> with no check: where that inserts, the list holds
  three views, and nothing is displaced. With \<open>_maxVisibleItems = -1\<close> the first
  \<open>add\<close> finds no vacancy in the empty list, displaces nothing and throws. And a
  bounded list that holds four views holds four after an overflowing \<open>add\<close>.
\<close>

theorem bounded_add_counterexample:
  "views (fst (add
                      \<lparr> ListView_add = (\<lambda>vs v i. v # vs),
                        ListView_remove = (\<lambda>vs v. remove1 v vs),
                        factory_createContentView = (\<lambda>c. \<lparr> view_ref = content_ref c, content = c \<rparr>) \<rparr>
                      (View \<lparr> view_ref = 3, content = \<lparr> content_ref = 3, content_id = Num 3 \<rparr> \<rparr>) Undefined
                      \<lparr> views = [\<lparr> view_ref = 2, content = \<lparr> content_ref = 2, content_id = Num 2 \<rparr> \<rparr>,
                                 \<lparr> view_ref = 1, content = \<lparr> content_ref = 1, content_id = Num 1 \<rparr> \<rparr>],
                        lv_more = 0, priv_stash = 0, feature = 1,
                        priv_maxVisibleItems = 1, priv_bound = True,
                        objects = (\<lambda>r. \<lparr> entities = [], goal = 0, priv_count = 0,
                                          priv_interval = 5 \<rparr>) \<rparr>))
          = [\<lparr> view_ref = 3, content = \<lparr> content_ref = 3, content_id = Num 3 \<rparr> \<rparr>,
                       \<lparr> view_ref = 2, content = \<lparr> content_ref = 2, content_id = Num 2 \<rparr> \<rparr>,
                       \<lparr> view_ref = 1, content = \<lparr> content_ref = 1, content_id = Num 1 \<rparr> \<rparr>]
   \<and> entities (objects (fst (add
                                 \<lparr> ListView_add = (\<lambda>vs v i. v # vs),
                                   ListView_remove = (\<lambda>vs v. remove1 v vs),
                                   factory_createContentView = (\<lambda>c. \<lparr> view_ref = content_ref c, content = c \<rparr>) \<rparr>
                                 (View \<lparr> view_ref = 3, content = \<lparr> content_ref = 3, content_id = Num 3 \<rparr> \<rparr>) Undefined
                                 \<lparr> views = [\<lparr> view_ref = 2, content = \<lparr> content_ref = 2, content_id = Num 2 \<rparr> \<rparr>,
                                            \<lparr> view_ref = 1, content = \<lparr> content_ref = 1, content_id = Num 1 \<rparr> \<rparr>],
                                   lv_more = 0, priv_stash = 0, feature = 1,
                                   priv_maxVisibleItems = 1, priv_bound = True,
                                   objects = (\<lambda>r. \<lparr> entities = [], goal = 0, priv_count = 0,
                                                     priv_interval = 5 \<rparr>) \<rparr>)) 0) = []
   \<and> views (fst (add
                      \<lparr> ListView_add = (\<lambda>vs v i. v # vs),
                        ListView_remove = (\<lambda>vs v. remove1 v vs),
                        factory_createContentView = (\<lambda>c. \<lparr> view_ref = content_ref c, content = c \<rparr>) \<rparr>
                      (Content \<lparr> content_ref = 2, content_id = Num 2 \<rparr>) Undefined
                      \<lparr> views = [\<lparr> view_ref = 2, content = \<lparr> content_ref = 2, content_id = Num 2 \<rparr> \<rparr>,
                                 \<lparr> view_ref = 1, content = \<lparr> content_ref = 1, content_id = Num 1 \<rparr> \<rparr>],
                        lv_more = 0, priv_stash = 0, feature = 1,
                        priv_maxVisibleItems = 1, priv_bound = True,
                        objects = (\<lambda>r. \<lparr> entities = [], goal = 0, priv_count = 0,
                                          priv_interval = 5 \<rparr>) \<rparr>))
          = [\<lparr> view_ref = 2, content = \<lparr> content_ref = 2, content_id = Num 2 \<rparr> \<rparr>,
                       \<lparr> view_ref = 2, content = \<lparr> content_ref = 2, content_id = Num 2 \<rparr> \<rparr>,
                       \<lparr> view_ref = 1, content = \<lparr> content_ref = 1, content_id = Num 1 \<rparr> \<rparr>]
   \<and> entities (objects (fst (add
                                 \<lparr> ListView_add = (\<lambda>vs v i. v # vs),
                                   ListView_remove = (\<lambda>vs v. remove1 v vs),
                                   factory_createContentView = (\<lambda>c. \<lparr> view_ref = content_ref c, content = c \<rparr>) \<rparr>
                                 (Content \<lparr> content_ref = 2, content_id = Num 2 \<rparr>) Undefined
                                 \<lparr> views = [\<lparr> view_ref = 2, content = \<lparr> content_ref = 2, content_id = Num 2 \<rparr> \<rparr>,
                                            \<lparr> view_ref = 1, content = \<lparr> content_ref = 1, content_id = Num 1 \<rparr> \<rparr>],
                                   lv_more = 0, priv_stash = 0, feature = 1,
                                   priv_maxVisibleItems = 1, priv_bound = True,
                                   objects = (\<lambda>r. \<lparr> entities = [], goal = 0, priv_count = 0,
                                                     priv_interval = 5 \<rparr>) \<rparr>)) 0) = []
   \<and> snd (add
               \<lparr> ListView_add = (\<lambda>vs v i. v # vs),
                 ListView_remove = (\<lambda>vs v. remove1 v vs),
                 factory_createContentView = (\<lambda>c. \<lparr> view_ref = content_ref c, content = c \<rparr>) \<rparr>
               (Content \<lparr> content_ref = 1, content_id = Num 1 \<rparr>) Undefined
               \<lparr> views = [],
                 lv_more = 0, priv_stash = 0, feature = 1,
                 priv_maxVisibleItems = - 1, priv_bound = True,
                 objects = (\<lambda>r. \<lparr> entities = [], goal = 0, priv_count = 0,
                                   priv_interval = 5 \<rparr>) \<rparr>) = Some TypeError
   \<and> views (fst (add
                      \<lparr> ListView_add = (\<lambda>vs v i. v # vs),
                        ListView_remove = (\<lambda>vs v. remove1 v vs),
                        factory_createContentView = (\<lambda>c. \<lparr> view_ref = content_ref c, content = c \<rparr>) \<rparr>
                      (Content \<lparr> content_ref = 1, content_id = Num 1 \<rparr>) Undefined
                      \<lparr> views = [],
                        lv_more = 0, priv_stash = 0, feature = 1,
                        priv_maxVisibleItems = - 1, priv_bound = True,
                        objects = (\<lambda>r. \<lparr> entities = [], goal = 0, priv_count = 0,
                                          priv_interval = 5 \<rparr>) \<rparr>)) = []
   \<and> entities (objects (fst (add
                                 \<lparr> ListView_add = (\<lambda>vs v i. v # vs),
                                   ListView_remove = (\<lambda>vs v. remove1 v vs),
                                   factory_createContentView = (\<lambda>c. \<lparr> view_ref = content_ref c, content = c \<rparr>) \<rparr>
                                 (Content \<lparr> content_ref = 1, content_id = Num 1 \<rparr>) Undefined
                                 \<lparr> views = [],
                                   lv_more = 0, priv_stash = 0, feature = 1,
                                   priv_maxVisibleItems = - 1, priv_bound = True,
                                   objects = (\<lambda>r. \<lparr> entities = [], goal = 0, priv_count = 0,
                                                     priv_interval = 5 \<rparr>) \<rparr>)) 0) = []
   \<and> views (fst (add
                      \<lparr> ListView_add = (\<lambda>vs v i. v # vs),
                        ListView_remove = (\<lambda>vs v. remove1 v vs),
                        factory_createContentView = (\<lambda>c. \<lparr> view_ref = content_ref c, content = c \<rparr>) \<rparr>
                      (Content \<lparr> content_ref = 5, content_id = Num 5 \<rparr>) Undefined
                      \<lparr> views = [\<lparr> view_ref = 4, content = \<lparr> content_ref = 4, content_id = Num 4 \<rparr> \<rparr>,
                                 \<lparr> view_ref = 3, content = \<lparr> content_ref = 3, content_id = Num 3 \<rparr> \<rparr>,
                                 \<lparr> view_ref = 2, content = \<lparr> content_ref = 2, content_id = Num 2 \<rparr> \<rparr>,
                                 \<lparr> view_ref = 1, content = \<lparr> content_ref = 1, content_id = Num 1 \<rparr> \<rparr>],
                        lv_more = 0, priv_stash = 0, feature = 1,
                        priv_maxVisibleItems = 1, priv_bound = True,
                        objects = (\<lambda>r. \<lparr> entities = [], goal = 0, priv_count = 0,
                                          priv_interval = 5 \<rparr>) \<rparr>))
          = [\<lparr> view_ref = 5, content = \<lparr> content_ref = 5, content_id = Num 5 \<rparr> \<rparr>,
                       \<lparr> view_ref = 4, content = \<lparr> content_ref = 4, content_id = Num 4 \<rparr> \<rparr>,
                       \<lparr> view_ref = 3, content = \<lparr> content_ref = 3, content_id = Num 3 \<rparr> \<rparr>,
                       \<lparr> view_ref = 2, content = \<lparr> content_ref = 2, content_id = Num 2 \<rparr> \<rparr>]"
  by (simp add: getContentView_def hasVisibleVacancy_def createContentView_def
      cadence_def setGoal_def Let_def displace_def remove_def saveForLater_def stack_def)

text \<open>
  C10, amended. On a bounded list whose maximum is not negative, \<open>add\<close> of a content
  that has no view yet throws nothing, and it displaces a view exactly when the number of
  views is strictly greater than \<open>_maxVisibleItems\<close>: then the last view, and only that
  one, is handed to \<open>ListView.prototype.remove\<close> and its content is stacked onto the
  stash, before the new view is handed to \<open>ListView.prototype.add\<close>; otherwise the
  views and the stash's entities are left alone and the new view is added. Where
  \<open>ListView.prototype.add\<close> inserts one view and \<open>ListView.prototype.remove\<close> takes
  out the one it is given, a list of at most \<open>_maxVisibleItems + 1\<close> views has at most
  \<open>_maxVisibleItems + 1\<close> views after such an \<open>add\<close>. \<open>add\<close> of a view, or of a
  content that has a view, hands that view to \<open>ListView.prototype.add\<close> and does
  nothing else.
\<close>

theorem bounded_add_displaces_last_view:
  assumes "priv_bound lv" and "0 \<le> priv_maxVisibleItems lv"
    and "getContentView lv c = None"
    and "\<forall>vs v i. length (ListView_add cl vs v i) = Suc (length vs)"
    and "\<forall>vs v. v \<in> set vs \<longrightarrow> length (ListView_remove cl vs v) = length vs - 1"
  shows "snd (add cl (Content c) index lv) = None
       \<and> views (fst (add cl (Content c) index lv)) =
           (if int (length (views lv)) > priv_maxVisibleItems lv
            then ListView_add cl (ListView_remove cl (views lv) (last (views lv)))
                   (createContentView cl c) index
            else ListView_add cl (views lv) (createContentView cl c) index)
       \<and> entities (objects (fst (add cl (Content c) index lv)) (priv_stash lv)) =
           (if int (length (views lv)) > priv_maxVisibleItems lv
            then content (last (views lv)) # entities (objects lv (priv_stash lv))
            else entities (objects lv (priv_stash lv)))
       \<and> (if int (length (views lv)) \<le> priv_maxVisibleItems lv + 1
          then int (length (views (fst (add cl (Content c) index lv))))
                 \<le> priv_maxVisibleItems lv + 1
          else True)
       \<and> add cl (View v') index lv =
           (lv\<lparr>views := ListView_add cl (views lv) v' index\<rparr>, None)
       \<and> (case getContentView lv c' of
            None \<Rightarrow> True
          | Some v'' \<Rightarrow> add cl (Content c') index lv =
              (lv\<lparr>views := ListView_add cl (views lv) v'' index\<rparr>, None))"
proof -
  have early: "add cl (View v') index lv =
      (lv\<lparr>views := ListView_add cl (views lv) v' index\<rparr>, None)"
    by simp
  have known: "(case getContentView lv c' of
            None \<Rightarrow> True
          | Some v'' \<Rightarrow> add cl (Content c') index lv =
              (lv\<lparr>views := ListView_add cl (views lv) v'' index\<rparr>, None))"
    by (simp split: option.splits)
  show ?thesis
  proof (cases "int (length (views lv)) > priv_maxVisibleItems lv")
    case True
    with assms(2) have ne: "views lv \<noteq> []" by auto
    then have "last (views lv) \<in> set (views lv)" by simp
    with assms(5) have len: "length (ListView_remove cl (views lv) (last (views lv)))
        = length (views lv) - 1"
      by blast
    from add_new_content_overflow [OF assms(3) assms(1) True ne, of cl index] True ne len
      assms(4) early known
    show ?thesis by (auto simp add: neq_Nil_conv simp del: add.simps)
  next
    case False
    then have v: "\<not> (priv_bound lv \<and> int (length (views lv)) > priv_maxVisibleItems lv)"
      by simp
    from add_new_content_vacancy [OF assms(3) v, of cl index] False assms(4) early known
    show ?thesis by (simp del: add.simps)
  qed
qed

theorem bounded_add_displaces_last_view_witness:
  "views (fst (add
                      \<lparr> ListView_add = (\<lambda>vs v i. v # vs),
                        ListView_remove = (\<lambda>vs v. remove1 v vs),
                        factory_createContentView = (\<lambda>c. \<lparr> view_ref = content_ref c, content = c \<rparr>) \<rparr>
                      (Content \<lparr> content_ref = 3, content_id = Num 3 \<rparr>) Undefined
                      \<lparr> views = [\<lparr> view_ref = 2, content = \<lparr> content_ref = 2, content_id = Num 2 \<rparr> \<rparr>,
                                 \<lparr> view_ref = 1, content = \<lparr> content_ref = 1, content_id = Num 1 \<rparr> \<rparr>],
                        lv_more = 0, priv_stash = 0, feature = 1,
                        priv_maxVisibleItems = 1, priv_bound = True,
                        objects = (\<lambda>r. \<lparr> entities = [], goal = 0, priv_count = 0,
                                          priv_interval = 5 \<rparr>) \<rparr>))
          = [\<lparr> view_ref = 3, content = \<lparr> content_ref = 3, content_id = Num 3 \<rparr> \<rparr>,
                       \<lparr> view_ref = 2, content = \<lparr> content_ref = 2, content_id = Num 2 \<rparr> \<rparr>]
   \<and> entities (objects (fst (add
                                 \<lparr> ListView_add = (\<lambda>vs v i. v # vs),
                                   ListView_remove = (\<lambda>vs v. remove1 v vs),
                                   factory_createContentView = (\<lambda>c. \<lparr> view_ref = content_ref c, content = c \<rparr>) \<rparr>
                                 (Content \<lparr> content_ref = 3, content_id = Num 3 \<rparr>) Undefined
                                 \<lparr> views = [\<lparr> view_ref = 2, content = \<lparr> content_ref = 2, content_id = Num 2 \<rparr> \<rparr>,
                                            \<lparr> view_ref = 1, content = \<lparr> content_ref = 1, content_id = Num 1 \<rparr> \<rparr>],
                                   lv_more = 0, priv_stash = 0, feature = 1,
                                   priv_maxVisibleItems = 1, priv_bound = True,
                                   objects = (\<lambda>r. \<lparr> entities = [], goal = 0, priv_count = 0,
                                                     priv_interval = 5 \<rparr>) \<rparr>)) 0)
          = [\<lparr> content_ref = 1, content_id = Num 1 \<rparr>]"
proof -
  let ?cl = "\<lparr> ListView_add = (\<lambda>vs v i. v # vs),
               ListView_remove = (\<lambda>vs v. remove1 v vs),
               factory_createContentView = (\<lambda>c. \<lparr> view_ref = content_ref c, content = c \<rparr>) \<rparr>"
  let ?lv = "\<lparr> views = [\<lparr> view_ref = 2, content = \<lparr> content_ref = 2, content_id = Num 2 \<rparr> \<rparr>,
                        \<lparr> view_ref = 1, content = \<lparr> content_ref = 1, content_id = Num 1 \<rparr> \<rparr>],
               lv_more = 0, priv_stash = 0, feature = 1,
               priv_maxVisibleItems = 1, priv_bound = True,
               objects = (\<lambda>r. \<lparr> entities = [], goal = 0, priv_count = 0,
                                 priv_interval = 5 \<rparr>) \<rparr>"
  let ?c = "\<lparr> content_ref = 3, content_id = Num 3 \<rparr>"
  have b: "priv_bound ?lv" by simp
  have m: "0 \<le> priv_maxVisibleItems ?lv" by simp
  have new: "getContentView ?lv ?c = None" by (simp add: getContentView_def)
  have ins: "\<forall>vs v i. length (ListView_add ?cl vs v i) = Suc (length vs)" by simp
  have del: "\<forall>vs v. v \<in> set vs \<longrightarrow> length (ListView_remove ?cl vs v) = length vs - 1"
    by (simp add: length_remove1)
  from bounded_add_displaces_last_view [OF b m new ins del, where index = Undefined
      and v' = "\<lparr> view_ref = 8, content = \<lparr> content_ref = 8, content_id = Num 8 \<rparr> \<rparr>"
      and c' = "\<lparr> content_ref = 8, content_id = Num 8 \<rparr>"]
  show ?thesis by (simp add: createContentView_def del: add.simps)
qed

end
